theory Spec2Isabelle
  imports Complex_Main
begin

section \<open>Python values and the built-ins that \<^verbatim>\<open>main_pretrain.py\<close> relies on\<close>

text \<open>
  The configuration file and the statistics of an epoch hold dynamically typed values.
  Floats are modelled by exact reals: rounding, overflow and NaN are outside the model.
\<close>

datatype pyval =
    PNone
  | PBool bool
  | PInt int
  | PFloat real
  | PStr string
  | PList "pyval list"
  | PDict "(string \<times> pyval) list"

text \<open>The truth value Python gives an object in \<^verbatim>\<open>if v:\<close>.\<close>

fun truthy :: "pyval \<Rightarrow> bool" where
  "truthy PNone = False"
| "truthy (PBool b) = b"
| "truthy (PInt i) = (i \<noteq> 0)"
| "truthy (PFloat x) = (x \<noteq> 0)"
| "truthy (PStr s) = (s \<noteq> [])"
| "truthy (PList xs) = (xs \<noteq> [])"
| "truthy (PDict kvs) = (kvs \<noteq> [])"

text \<open>The exceptions that leave \<^verbatim>\<open>main\<close>. \<open>Raised\<close> is an exception of the epoch
  executor, which \<^verbatim>\<open>main\<close> does not catch.\<close>

datatype error =
    ValueError string
  | ZeroDivisionError
  | UnboundLocalError string
  | ResumeError string
  | Raised string

text \<open>\<^verbatim>\<open>os.path.join(a, b)\<close> on a POSIX system.\<close>

definition path_join :: "string \<Rightarrow> string \<Rightarrow> string" where
  "path_join a b =
     (if take 1 b = ''/'' then b
      else if a = [] \<or> last a = CHR ''/'' then a @ b
      else a @ ''/'' @ b)"

text \<open>\<^verbatim>\<open>str\<close> of an integer, as the f-string \<^verbatim>\<open>f'checkpoint-{epoch}.pth'\<close> formats it.\<close>

function str_nat :: "nat \<Rightarrow> string" where
  "str_nat n =
     (if n < 10 then [''0123456789'' ! n]
      else str_nat (n div 10) @ [''0123456789'' ! (n mod 10)])"
  by pat_completeness auto
termination
  by (relation "measure id") auto

declare str_nat.simps [simp del]

definition str_int :: "int \<Rightarrow> string" where
  "str_int i = (if i < 0 then CHR ''-'' # str_nat (nat (- i)) else str_nat (nat i))"

text \<open>\<^verbatim>\<open>range(a, b)\<close> as the list of its values.\<close>

definition py_range :: "int \<Rightarrow> int \<Rightarrow> int list" where
  "py_range a b = [a..b - 1]"

text \<open>A dict with string keys, in insertion order: \<^verbatim>\<open>d[k] = v\<close> overwrites in place
  or appends.\<close>

fun dict_set :: "(string \<times> 'v) list \<Rightarrow> string \<Rightarrow> 'v \<Rightarrow> (string \<times> 'v) list" where
  "dict_set [] k v = [(k, v)]"
| "dict_set ((k', v') # d) k v =
     (if k' = k then (k, v) # d else (k', v') # dict_set d k v)"

fun dict_of_items :: "(string \<times> 'v) list \<Rightarrow> (string \<times> 'v) list \<Rightarrow> (string \<times> 'v) list" where
  "dict_of_items d [] = d"
| "dict_of_items d ((k, v) # kvs) = dict_of_items (dict_set d k v) kvs"

section \<open>\<^verbatim>\<open>parse\<close>: command line over configuration file\<close>

text \<open>The five options of the argument parser; \<open>None\<close> is an option that was not given.\<close>

record cmdline =
  opt_config_path :: "string option"
  opt_output_dir :: "string option"
  opt_exp_name :: "string option"
  opt_resume :: "string option"
  opt_start_epoch :: "int option"

text \<open>\<^verbatim>\<open>vars(parser.parse_args()).items()\<close>: every option with its default filled in,
  in the order the options were added.\<close>

definition parse_args :: "cmdline \<Rightarrow> (string \<times> pyval) list" where
  "parse_args cl =
     [(''config_path'', PStr (case opt_config_path cl of
          None \<Rightarrow> ''./configs/pretrain/st_mem_vit_beta_base_12lead.yaml'' | Some p \<Rightarrow> p)),
      (''output_dir'', PStr (case opt_output_dir cl of None \<Rightarrow> '''' | Some p \<Rightarrow> p)),
      (''exp_name'', PStr (case opt_exp_name cl of None \<Rightarrow> '''' | Some p \<Rightarrow> p)),
      (''resume'', PStr (case opt_resume cl of None \<Rightarrow> '''' | Some p \<Rightarrow> p)),
      (''start_epoch'', PInt (case opt_start_epoch cl of None \<Rightarrow> 0 | Some n \<Rightarrow> n))]"

text \<open>The loop \<^verbatim>\<open>for k, v in vars(args).items(): if v: config[k] = v\<close>.\<close>

fun merge_args :: "(string \<times> pyval) list \<Rightarrow> (string \<rightharpoonup> pyval) \<Rightarrow> (string \<rightharpoonup> pyval)" where
  "merge_args [] config = config"
| "merge_args ((k, v) # kvs) config =
     merge_args kvs (if truthy v then config(k \<mapsto> v) else config)"

text \<open>\<^verbatim>\<open>parse\<close>, with the mapping that \<^verbatim>\<open>yaml.load\<close> reads from the configuration file
  as a parameter.\<close>

definition parse :: "cmdline \<Rightarrow> (string \<rightharpoonup> pyval) \<Rightarrow> (string \<rightharpoonup> pyval)" where
  "parse cl file_config = merge_args (parse_args cl) file_config"

section \<open>The configuration as \<^verbatim>\<open>main\<close> reads it\<close>

record ddp_config =
  distributed :: bool
  gpu :: int

record dataloader_config =
  batch_size :: int

text \<open>\<open>lr = None\<close> is \<^verbatim>\<open>lr: null\<close> in the configuration file.\<close>

record train_config =
  lr :: "real option"
  blr :: real
  accum_iter :: int
  epochs :: int

record config =
  ddp :: ddp_config
  device :: string
  seed :: int
  dataloader :: dataloader_config
  output_dir :: string
  exp_name :: string
  model_name :: string
  train :: train_config
  resume :: string
  start_epoch :: int

text \<open>
  What the process finds around it: the answers of \<^verbatim>\<open>util.misc\<close> about the topology,
  the names bound in the \<^verbatim>\<open>models\<close> package, the epoch executor (statistics of an
  epoch, or the exception it raises), and the epoch stored in the checkpoint file at a
  path (\<open>None\<close>: no readable checkpoint there).
\<close>

record env =
  rank :: int
  world_size :: int
  is_main_process :: bool
  models :: "string list"
  train_one_epoch :: "int \<Rightarrow> error + (string \<times> pyval) list"
  checkpoint_epoch :: "string \<Rightarrow> int option"

section \<open>\<^verbatim>\<open>main\<close>\<close>

text \<open>
  Calls into the collaborators (dataset, model, optimizer, checkpoint store, summary
  writer, log file) are recorded as events, in program order. A summary writer is
  identified by its log directory.
\<close>

datatype snapshot = FullSnapshot | EncoderOnly

datatype event =
    InitDistributedMode
  | ManualSeed int
  | BuildDataset
  | GetDataloader bool
  | MakeDirs string
  | OpenSummaryWriter string
  | BuildModel string
  | ModelToDevice string
  | WrapDistributed int
  | GetOptimizer "real option"
  | NewLossScaler
  | LoadCheckpoint string int
  | SamplerSetEpoch int
  | TrainOneEpoch int "string option"
  | SaveModel string int snapshot
  | TakeEncoder
  | FlushWriter string
  | AppendLine string "(string \<times> pyval) list"

text \<open>Lines 124 to 130: the locals \<^verbatim>\<open>output_dir\<close> and \<^verbatim>\<open>log_writer\<close>.\<close>

definition open_output :: "env \<Rightarrow> config \<Rightarrow> string option \<times> string option \<times> event list" where
  "open_output env cfg =
     (if is_main_process env \<and> output_dir cfg \<noteq> []
      then (let od = path_join (output_dir cfg) (exp_name cfg)
            in (Some od, Some od, [MakeDirs od, OpenSummaryWriter od]))
      else (None, None, []))"

text \<open>Lines 147 to 151.\<close>

definition eff_batch_size :: "env \<Rightarrow> config \<Rightarrow> int" where
  "eff_batch_size env cfg =
     batch_size (dataloader cfg) * accum_iter (train cfg) * world_size env"

definition derive_lr :: "env \<Rightarrow> config \<Rightarrow> config" where
  "derive_lr env cfg =
     (case lr (train cfg) of
        None \<Rightarrow> cfg\<lparr>train := (train cfg)\<lparr>lr :=
                  Some (blr (train cfg) * of_int (eff_batch_size env cfg) / 256)\<rparr>\<rparr>
      | Some _ \<Rightarrow> cfg)"

text \<open>
  Modelled from the spec: \<^verbatim>\<open>misc.load_model\<close> is not among the sources. The spec's
  Checkpoint Store \<^verbatim>\<open>load\<close>: with a non-empty resume path it restores the state from the
  snapshot, and a missing or corrupt snapshot is fatal; otherwise it is a no-op. The
  configuration, its \<^verbatim>\<open>start_epoch\<close> included, is not overwritten.
\<close>

definition load_model :: "env \<Rightarrow> config \<Rightarrow> error + config \<times> event list" where
  "load_model env cfg =
     (if resume cfg = [] then Inr (cfg, [])
      else case checkpoint_epoch env (resume cfg) of
             None \<Rightarrow> Inl (ResumeError (resume cfg))
           | Some stored \<Rightarrow> Inr (cfg, [LoadCheckpoint (resume cfg) stored]))"

text \<open>Lines 204 to 206: the record of an epoch.\<close>

definition log_stats :: "(string \<times> pyval) list \<Rightarrow> int \<Rightarrow> (string \<times> pyval) list" where
  "log_stats train_stats epoch =
     dict_set (dict_of_items [] (map (\<lambda>(k, v). (''train_'' @ k, v)) train_stats))
       ''epoch'' (PInt epoch)"

text \<open>Lines 195 to 201 and 209 to 213: what an epoch writes once the executor has returned.\<close>

definition save_checkpoint :: "config \<Rightarrow> string option \<Rightarrow> int \<Rightarrow> event list" where
  "save_checkpoint cfg od epoch =
     (case od of
        None \<Rightarrow> []
      | Some d \<Rightarrow>
          if d \<noteq> [] \<and> (epoch mod 20 = 0 \<or> epoch + 1 = epochs (train cfg))
          then [SaveModel (path_join d (''checkpoint-'' @ str_int epoch @ ''.pth''))
                  epoch FullSnapshot]
          else [])"

definition write_log ::
  "env \<Rightarrow> string option \<Rightarrow> string option \<Rightarrow> (string \<times> pyval) list \<Rightarrow> event list" where
  "write_log env od lw stats =
     (case od of
        None \<Rightarrow> []
      | Some d \<Rightarrow>
          if d \<noteq> [] \<and> is_main_process env
          then (case lw of None \<Rightarrow> [] | Some w \<Rightarrow> [FlushWriter w])
               @ [AppendLine (path_join d ''log.txt'') stats]
          else [])"

text \<open>Lines 182 to 213: the body of the epoch loop.\<close>

definition epoch_body ::
  "env \<Rightarrow> config \<Rightarrow> string option \<Rightarrow> string option \<Rightarrow> int \<Rightarrow> event list \<times> (error + unit)" where
  "epoch_body env cfg od lw epoch =
     (let t = (if distributed (ddp cfg) then [SamplerSetEpoch epoch] else [])
              @ [TrainOneEpoch epoch lw]
      in case train_one_epoch env epoch of
           Inl err \<Rightarrow> (t, Inl err)
         | Inr train_stats \<Rightarrow>
             (t @ save_checkpoint cfg od epoch
                @ write_log env od lw (log_stats train_stats epoch), Inr ()))"

text \<open>Line 181: the loop. The last argument is the local \<^verbatim>\<open>epoch\<close>, \<open>None\<close> while it
  is unbound.\<close>

fun epoch_loop ::
  "env \<Rightarrow> config \<Rightarrow> string option \<Rightarrow> string option \<Rightarrow> int list \<Rightarrow> int option
   \<Rightarrow> event list \<times> (error + int option)" where
  "epoch_loop env cfg od lw [] bound = ([], Inr bound)"
| "epoch_loop env cfg od lw (e # es) bound =
     (case epoch_body env cfg od lw e of
        (t, Inl err) \<Rightarrow> (t, Inl err)
      | (t, Inr _) \<Rightarrow>
          (case epoch_loop env cfg od lw es (Some e) of (t', r) \<Rightarrow> (t @ t', r)))"

text \<open>Lines 221 to 227: the encoder artifact, tagged with the local \<^verbatim>\<open>epoch\<close>.\<close>

definition extract_encoder :: "string option \<Rightarrow> int option \<Rightarrow> event list \<times> (error + unit)" where
  "extract_encoder od bound =
     (case od of
        None \<Rightarrow> ([TakeEncoder], Inr ())
      | Some d \<Rightarrow>
          if d = [] then ([TakeEncoder], Inr ())
          else (case bound of
                  None \<Rightarrow> ([TakeEncoder], Inl (UnboundLocalError ''epoch''))
                | Some e \<Rightarrow>
                    ([TakeEncoder, SaveModel (path_join d ''encoder_fft.pth'') e EncoderOnly],
                     Inr ())))"

text \<open>A run: the configuration as \<^verbatim>\<open>main\<close> leaves it, the events in order, and how
  \<^verbatim>\<open>main\<close> ends.\<close>

record run =
  final_config :: config
  trace :: "event list"
  outcome :: "error + unit"

text \<open>Lines 172 to 227: from the checkpoint load to the end.\<close>

definition training ::
  "env \<Rightarrow> config \<Rightarrow> string option \<Rightarrow> string option \<Rightarrow> event list \<Rightarrow> run" where
  "training env cfg od lw t =
     (case load_model env cfg of
        Inl err \<Rightarrow> \<lparr>final_config = cfg, trace = t, outcome = Inl err\<rparr>
      | Inr (cfg', t_load) \<Rightarrow>
          (case epoch_loop env cfg' od lw
                  (py_range (start_epoch cfg') (epochs (train cfg'))) None of
             (t_loop, Inl err) \<Rightarrow>
               \<lparr>final_config = cfg', trace = t @ t_load @ t_loop, outcome = Inl err\<rparr>
           | (t_loop, Inr bound) \<Rightarrow>
               (case extract_encoder od bound of
                  (t_enc, r) \<Rightarrow>
                    \<lparr>final_config = cfg', trace = t @ t_load @ t_loop @ t_enc,
                     outcome = r\<rparr>)))"

text \<open>
  \<^verbatim>\<open>main\<close>. Printing is left out, but for the division of line 154, which raises when
  the effective batch size is zero.
\<close>

definition main :: "env \<Rightarrow> config \<Rightarrow> run" where
  "main env cfg =
     (let t_init = [InitDistributedMode, ManualSeed (seed cfg + rank env), BuildDataset,
                    GetDataloader (distributed (ddp cfg))]
      in case open_output env cfg of
           (od, lw, t_out) \<Rightarrow>
             if model_name cfg \<notin> set (models env)
             then \<lparr>final_config = cfg, trace = t_init @ t_out,
                   outcome = Inl (ValueError (''Unsupported model name: '' @ model_name cfg))\<rparr>
             else
               let t_model = [BuildModel (model_name cfg), ModelToDevice (device cfg)];
                   cfg1 = derive_lr env cfg
               in if eff_batch_size env cfg1 = 0
                  then \<lparr>final_config = cfg1, trace = t_init @ t_out @ t_model,
                        outcome = Inl ZeroDivisionError\<rparr>
                  else
                    let t_opt = (if distributed (ddp cfg1)
                                 then [WrapDistributed (gpu (ddp cfg1))] else [])
                                @ [GetOptimizer (lr (train cfg1)), NewLossScaler]
                    in training env cfg1 od lw (t_init @ t_out @ t_model @ t_opt))"

section \<open>Reading a run\<close>

text \<open>The full checkpoints, the encoder artifacts and the log lines that a trace holds,
  each in the order written; the epochs handed to the epoch executor.\<close>

definition checkpoint_of :: "event \<Rightarrow> (string \<times> int) list" where
  "checkpoint_of ev = (case ev of SaveModel p e FullSnapshot \<Rightarrow> [(p, e)] | _ \<Rightarrow> [])"

definition encoder_of :: "event \<Rightarrow> (string \<times> int) list" where
  "encoder_of ev = (case ev of SaveModel p e EncoderOnly \<Rightarrow> [(p, e)] | _ \<Rightarrow> [])"

definition log_line_of :: "event \<Rightarrow> (string \<times> (string \<times> pyval) list) list" where
  "log_line_of ev = (case ev of AppendLine p r \<Rightarrow> [(p, r)] | _ \<Rightarrow> [])"

definition executed_of :: "event \<Rightarrow> int list" where
  "executed_of ev = (case ev of TrainOneEpoch e w \<Rightarrow> [e] | _ \<Rightarrow> [])"

definition checkpoints :: "event list \<Rightarrow> (string \<times> int) list" where
  "checkpoints t = concat (map checkpoint_of t)"

definition encoder_saves :: "event list \<Rightarrow> (string \<times> int) list" where
  "encoder_saves t = concat (map encoder_of t)"

definition log_lines :: "event list \<Rightarrow> (string \<times> (string \<times> pyval) list) list" where
  "log_lines t = concat (map log_line_of t)"

definition executed :: "event list \<Rightarrow> int list" where
  "executed t = concat (map executed_of t)"

text \<open>The traffic of the metric sink: a flush of the monitoring stream, or a line of
  \<^verbatim>\<open>log.txt\<close>.\<close>

datatype sink = Flushed string | Logged "(string \<times> pyval) list"

definition sink_of :: "event \<Rightarrow> sink list" where
  "sink_of ev =
     (case ev of FlushWriter w \<Rightarrow> [Flushed w] | AppendLine p r \<Rightarrow> [Logged r] | _ \<Rightarrow> [])"

definition sink_events :: "event list \<Rightarrow> sink list" where
  "sink_events t = concat (map sink_of t)"

text \<open>Every flush is directly followed by a log line, and every log line directly
  follows a flush.\<close>

fun flush_then_log :: "sink list \<Rightarrow> bool" where
  "flush_then_log [] = True"
| "flush_then_log (Flushed w # Logged r # t) = flush_then_log t"
| "flush_then_log _ = False"

text \<open>
  A run can be stopped before \<^verbatim>\<open>main\<close> comes to its end: the process is killed, or a
  call such as the \<^verbatim>\<open>open\<close> or the \<^verbatim>\<open>write\<close> of lines 212 and 213 raises. What
  such an execution leaves is the events before the stop, a prefix of the trace.
\<close>

definition stopped_after :: "nat \<Rightarrow> run \<Rightarrow> event list" where
  "stopped_after k r = take k (trace r)"

text \<open>The log is not ahead of the monitoring stream: every log line directly follows a
  flush, and at most the last flush is still without its line.\<close>

fun log_not_ahead :: "sink list \<Rightarrow> bool" where
  "log_not_ahead [] = True"
| "log_not_ahead [Flushed w] = True"
| "log_not_ahead (Flushed w # Logged r # t) = log_not_ahead t"
| "log_not_ahead _ = False"

text \<open>The side effects reserved to the main process: a directory or summary writer
  created, a snapshot saved, the monitoring stream flushed, a line appended to
  \<^verbatim>\<open>log.txt\<close>, and an epoch executor that is handed a summary writer to write to.\<close>

definition gated :: "event \<Rightarrow> bool" where
  "gated ev =
     (case ev of
        MakeDirs d \<Rightarrow> True
      | OpenSummaryWriter d \<Rightarrow> True
      | SaveModel p e k \<Rightarrow> True
      | FlushWriter w \<Rightarrow> True
      | AppendLine p r \<Rightarrow> True
      | TrainOneEpoch e w \<Rightarrow> w \<noteq> None
      | _ \<Rightarrow> False)"

text \<open>The epochs of a range that the executor completes before its first exception.\<close>

definition completed :: "env \<Rightarrow> int list \<Rightarrow> int list" where
  "completed env es = takeWhile (\<lambda>e. \<not> isl (train_one_epoch env e)) es"

text \<open>The runs that get as far as the epoch loop: the model name is known, line 154
  does not divide by zero, and a configured resume path holds a checkpoint.\<close>

definition reaches_loop :: "env \<Rightarrow> config \<Rightarrow> bool" where
  "reaches_loop env cfg \<longleftrightarrow>
     model_name cfg \<in> set (models env) \<and> eff_batch_size env cfg \<noteq> 0 \<and>
     (resume cfg = [] \<or> checkpoint_epoch env (resume cfg) \<noteq> None)"

text \<open>The learning rate in the configuration when \<^verbatim>\<open>main\<close> ends.\<close>

definition derived_lr :: "env \<Rightarrow> config \<Rightarrow> real option" where
  "derived_lr env cfg = lr (train (final_config (main env cfg)))"

text \<open>The configuration with one of the three factors of the effective batch size
  doubled.\<close>

definition double_batch_size :: "config \<Rightarrow> config" where
  "double_batch_size cfg =
     cfg\<lparr>dataloader := (dataloader cfg)\<lparr>batch_size := 2 * batch_size (dataloader cfg)\<rparr>\<rparr>"

definition double_accum_iter :: "config \<Rightarrow> config" where
  "double_accum_iter cfg = cfg\<lparr>train := (train cfg)\<lparr>accum_iter := 2 * accum_iter (train cfg)\<rparr>\<rparr>"

definition double_world_size :: "env \<Rightarrow> env" where
  "double_world_size env = env\<lparr>world_size := 2 * world_size env\<rparr>"

section \<open>A toy run\<close>

text \<open>Three processes, of which rank 0 is the main one; an executor that reports a loss
  and a learning rate, and fails at no epoch; one checkpoint on disk, stored at epoch
  20.\<close>

definition toy_epoch :: "int \<Rightarrow> error + (string \<times> pyval) list" where
  "toy_epoch e = Inr [(''loss'', PFloat (1 / of_int (e + 1))), (''lr'', PFloat (1 / 1000))]"

definition toy_env :: "int \<Rightarrow> env" where
  "toy_env r =
     \<lparr>rank = r, world_size = 3, is_main_process = (r = 0),
      models = [''st_mem_vit_small'', ''st_mem_vit_base''],
      train_one_epoch = toy_epoch,
      checkpoint_epoch = (\<lambda>p. if p = ''out/exp/checkpoint-20.pth'' then Some 20 else None)\<rparr>"

text \<open>A configuration with the learning rate left to be derived; the parameters are the
  model name, the resume path, the start epoch and the number of epochs.\<close>

definition toy_config :: "string \<Rightarrow> string \<Rightarrow> int \<Rightarrow> int \<Rightarrow> config" where
  "toy_config m r s n =
     \<lparr>ddp = \<lparr>distributed = True, gpu = 0\<rparr>, device = ''cuda'', seed = 0,
      dataloader = \<lparr>batch_size = 64\<rparr>, output_dir = ''out'', exp_name = ''exp'',
      model_name = m,
      train = \<lparr>lr = None, blr = 1 / 1000, accum_iter = 2, epochs = n\<rparr>,
      resume = r, start_epoch = s\<rparr>"

text \<open>A configuration file and a command line for \<^verbatim>\<open>parse\<close>; the parameter is the
  \<^verbatim>\<open>--start_epoch\<close> option.\<close>

definition toy_file :: "string \<rightharpoonup> pyval" where
  "toy_file = [''start_epoch'' \<mapsto> PInt 5, ''seed'' \<mapsto> PInt 0, ''output_dir'' \<mapsto> PStr ''out'']"

definition toy_cmdline :: "int option \<Rightarrow> cmdline" where
  "toy_cmdline n =
     \<lparr>opt_config_path = None, opt_output_dir = None, opt_exp_name = Some ''exp'',
      opt_resume = None, opt_start_epoch = n\<rparr>"

section \<open>Evaluation of the built-ins\<close>

lemmas str_nat_numeral = str_nat.simps [of "numeral k" for k]

lemma str_nat_0: "str_nat 0 = ''0''"
  by (simp add: str_nat.simps [of 0])

lemma path_join_nonempty: "a \<noteq> [] \<Longrightarrow> path_join a b \<noteq> []"
  by (auto simp: path_join_def)

section \<open>Reading the trace of the loop\<close>

lemma projections_append [simp]:
  "checkpoints (s @ t) = checkpoints s @ checkpoints t"
  "encoder_saves (s @ t) = encoder_saves s @ encoder_saves t"
  "log_lines (s @ t) = log_lines s @ log_lines t"
  "executed (s @ t) = executed s @ executed t"
  "sink_events (s @ t) = sink_events s @ sink_events t"
  by (simp_all add: checkpoints_def encoder_saves_def log_lines_def executed_def sink_events_def)

lemma projections_Nil [simp]:
  "checkpoints [] = []" "encoder_saves [] = []" "log_lines [] = []" "executed [] = []"
  "sink_events [] = []"
  by (simp_all add: checkpoints_def encoder_saves_def log_lines_def executed_def sink_events_def)

lemma projections_Cons [simp]:
  "checkpoints (ev # t) = checkpoint_of ev @ checkpoints t"
  "encoder_saves (ev # t) = encoder_of ev @ encoder_saves t"
  "log_lines (ev # t) = log_line_of ev @ log_lines t"
  "executed (ev # t) = executed_of ev @ executed t"
  "sink_events (ev # t) = sink_of ev @ sink_events t"
  by (simp_all add: checkpoints_def encoder_saves_def log_lines_def executed_def sink_events_def)

lemmas event_readers =
  checkpoint_of_def encoder_of_def log_line_of_def executed_of_def sink_of_def gated_def

lemma save_checkpoint_reads [simp]:
  "encoder_saves (save_checkpoint cfg od e) = []"
  "log_lines (save_checkpoint cfg od e) = []"
  "executed (save_checkpoint cfg od e) = []"
  "sink_events (save_checkpoint cfg od e) = []"
  by (simp_all add: save_checkpoint_def event_readers split: option.splits)

lemma write_log_reads [simp]:
  "checkpoints (write_log env od lw r) = []"
  "encoder_saves (write_log env od lw r) = []"
  "executed (write_log env od lw r) = []"
  by (simp_all add: write_log_def event_readers split: option.splits)

lemma completed_Cons:
  "completed env (e # es) =
     (if isl (train_one_epoch env e) then [] else e # completed env es)"
  by (simp add: completed_def)

lemma completed_Nil [simp]: "completed env [] = []"
  by (simp add: completed_def)

lemma epoch_loop_Cons:
  "epoch_loop env cfg od lw (e # es) b =
     (let t = (if distributed (ddp cfg) then [SamplerSetEpoch e] else []) @ [TrainOneEpoch e lw]
      in case train_one_epoch env e of
           Inl err \<Rightarrow> (t, Inl err)
         | Inr s \<Rightarrow>
             (t @ save_checkpoint cfg od e @ write_log env od lw (log_stats s e)
                @ fst (epoch_loop env cfg od lw es (Some e)),
              snd (epoch_loop env cfg od lw es (Some e))))"
  by (simp add: epoch_body_def Let_def split: sum.splits prod.splits)

lemma checkpoints_epoch_loop:
  "checkpoints (fst (epoch_loop env cfg od lw es b)) =
     concat (map (\<lambda>e. checkpoints (save_checkpoint cfg od e)) (completed env es))"
proof (induction es arbitrary: b)
  case Nil
  show ?case by simp
next
  case (Cons e es)
  show ?case
    by (cases "train_one_epoch env e")
       (simp_all add: epoch_loop_Cons completed_Cons Cons.IH event_readers del: epoch_loop.simps(2))
qed

lemma log_lines_epoch_loop:
  "log_lines (fst (epoch_loop env cfg od lw es b)) =
     concat (map (\<lambda>e. log_lines (write_log env od lw (log_stats (projr (train_one_epoch env e)) e)))
       (completed env es))"
proof (induction es arbitrary: b)
  case Nil
  show ?case by simp
next
  case (Cons e es)
  show ?case
    by (cases "train_one_epoch env e")
       (simp_all add: epoch_loop_Cons completed_Cons Cons.IH event_readers del: epoch_loop.simps(2))
qed

lemma sink_events_epoch_loop:
  "sink_events (fst (epoch_loop env cfg od lw es b)) =
     concat (map (\<lambda>e. sink_events (write_log env od lw (log_stats (projr (train_one_epoch env e)) e)))
       (completed env es))"
proof (induction es arbitrary: b)
  case Nil
  show ?case by simp
next
  case (Cons e es)
  show ?case
    by (cases "train_one_epoch env e")
       (simp_all add: epoch_loop_Cons completed_Cons Cons.IH event_readers del: epoch_loop.simps(2))
qed

lemma encoder_saves_epoch_loop: "encoder_saves (fst (epoch_loop env cfg od lw es b)) = []"
proof (induction es arbitrary: b)
  case Nil
  show ?case by simp
next
  case (Cons e es)
  show ?case
    by (cases "train_one_epoch env e")
       (simp_all add: epoch_loop_Cons Cons.IH event_readers del: epoch_loop.simps(2))
qed

lemma executed_epoch_loop:
  "executed (fst (epoch_loop env cfg od lw es b)) = take (Suc (length (completed env es))) es"
proof (induction es arbitrary: b)
  case Nil
  show ?case by simp
next
  case (Cons e es)
  show ?case
    by (cases "train_one_epoch env e")
       (simp_all add: epoch_loop_Cons completed_Cons Cons.IH event_readers del: epoch_loop.simps(2))
qed

section \<open>The configuration that a run leaves\<close>

lemma eff_batch_size_derive_lr [simp]:
  "eff_batch_size env (derive_lr env cfg) = eff_batch_size env cfg"
  by (simp add: eff_batch_size_def derive_lr_def split: option.splits)

lemma training_final_config: "final_config (training env cfg od lw t) = cfg"
  by (simp add: training_def load_model_def split: sum.splits prod.splits option.splits if_splits)

lemma main_final_config:
  "final_config (main env cfg) =
     (if model_name cfg \<in> set (models env) then derive_lr env cfg else cfg)"
  by (simp add: main_def Let_def training_final_config split: prod.splits)

lemma derive_lr_fields [simp]:
  "ddp (derive_lr env cfg) = ddp cfg"
  "device (derive_lr env cfg) = device cfg"
  "seed (derive_lr env cfg) = seed cfg"
  "dataloader (derive_lr env cfg) = dataloader cfg"
  "output_dir (derive_lr env cfg) = output_dir cfg"
  "exp_name (derive_lr env cfg) = exp_name cfg"
  "model_name (derive_lr env cfg) = model_name cfg"
  "resume (derive_lr env cfg) = resume cfg"
  "start_epoch (derive_lr env cfg) = start_epoch cfg"
  "blr (train (derive_lr env cfg)) = blr (train cfg)"
  "accum_iter (train (derive_lr env cfg)) = accum_iter (train cfg)"
  "epochs (train (derive_lr env cfg)) = epochs (train cfg)"
  by (simp_all add: derive_lr_def split: option.splits)

lemma save_checkpoint_derive_lr [simp]:
  "save_checkpoint (derive_lr env cfg) od e = save_checkpoint cfg od e"
  by (simp add: save_checkpoint_def split: option.splits)

lemma epoch_body_derive_lr [simp]:
  "epoch_body env (derive_lr env cfg) od lw e = epoch_body env cfg od lw e"
  by (simp add: epoch_body_def Let_def split: sum.splits)

lemma epoch_loop_derive_lr [simp]:
  "epoch_loop env (derive_lr env cfg) od lw es b = epoch_loop env cfg od lw es b"
  by (induction es arbitrary: b) simp_all

section \<open>The trace and the outcome of \<^verbatim>\<open>main\<close>\<close>

text \<open>The trace of a run that reaches the loop.\<close>

lemma training_trace:
  assumes "resume cfg = [] \<or> checkpoint_epoch env (resume cfg) \<noteq> None"
  shows "trace (training env cfg od lw t) =
           t @ (if resume cfg = [] then []
                else [LoadCheckpoint (resume cfg) (the (checkpoint_epoch env (resume cfg)))])
             @ fst (epoch_loop env cfg od lw (py_range (start_epoch cfg) (epochs (train cfg))) None)
             @ (case snd (epoch_loop env cfg od lw
                   (py_range (start_epoch cfg) (epochs (train cfg))) None) of
                  Inl err \<Rightarrow> []
                | Inr b \<Rightarrow> fst (extract_encoder od b))"
  using assms
  by (auto simp: training_def load_model_def split: sum.splits prod.splits option.splits)

lemma main_trace:
  assumes "reaches_loop env cfg"
  shows "trace (main env cfg) =
           [InitDistributedMode, ManualSeed (seed cfg + rank env), BuildDataset,
            GetDataloader (distributed (ddp cfg))]
           @ snd (snd (open_output env cfg))
           @ [BuildModel (model_name cfg), ModelToDevice (device cfg)]
           @ (if distributed (ddp cfg) then [WrapDistributed (gpu (ddp cfg))] else [])
           @ [GetOptimizer (lr (train (derive_lr env cfg))), NewLossScaler]
           @ (if resume cfg = [] then []
              else [LoadCheckpoint (resume cfg) (the (checkpoint_epoch env (resume cfg)))])
           @ fst (epoch_loop env cfg (fst (open_output env cfg)) (fst (snd (open_output env cfg)))
                   (py_range (start_epoch cfg) (epochs (train cfg))) None)
           @ (case snd (epoch_loop env cfg (fst (open_output env cfg))
                          (fst (snd (open_output env cfg)))
                          (py_range (start_epoch cfg) (epochs (train cfg))) None) of
                Inl err \<Rightarrow> []
              | Inr b \<Rightarrow> fst (extract_encoder (fst (open_output env cfg)) b))"
proof -
  obtain od lw t_out where oo: "open_output env cfg = (od, lw, t_out)"
    by (cases "open_output env cfg") auto
  have ld: "resume (derive_lr env cfg) = [] \<or>
            checkpoint_epoch env (resume (derive_lr env cfg)) \<noteq> None"
    using assms by (simp add: reaches_loop_def)
  from assms show ?thesis
    by (simp add: main_def Let_def oo reaches_loop_def training_trace [OF ld] cong: sum.case_cong)
qed

lemma main_unsupported:
  assumes "model_name cfg \<notin> set (models env)"
  shows "main env cfg =
           \<lparr>final_config = cfg,
            trace = [InitDistributedMode, ManualSeed (seed cfg + rank env), BuildDataset,
                     GetDataloader (distributed (ddp cfg))] @ snd (snd (open_output env cfg)),
            outcome = Inl (ValueError (''Unsupported model name: '' @ model_name cfg))\<rparr>"
  using assms by (simp add: main_def split: prod.splits)

lemma open_output_main:
  "is_main_process env \<Longrightarrow> output_dir cfg \<noteq> [] \<Longrightarrow>
   open_output env cfg =
     (Some (path_join (output_dir cfg) (exp_name cfg)),
      Some (path_join (output_dir cfg) (exp_name cfg)),
      [MakeDirs (path_join (output_dir cfg) (exp_name cfg)),
       OpenSummaryWriter (path_join (output_dir cfg) (exp_name cfg))])"
  by (simp add: open_output_def Let_def)

lemma open_output_other:
  "\<not> (is_main_process env \<and> output_dir cfg \<noteq> []) \<Longrightarrow> open_output env cfg = (None, None, [])"
  by (auto simp: open_output_def)

lemma derived_lr_eq:
  "model_name cfg \<in> set (models env) \<Longrightarrow>
   derived_lr env cfg =
     (case lr (train cfg) of
        None \<Rightarrow> Some (blr (train cfg) * of_int (eff_batch_size env cfg) / 256)
      | Some v \<Rightarrow> Some v)"
  by (simp add: derived_lr_def main_final_config derive_lr_def split: option.splits)

lemma main_outcome:
  assumes "reaches_loop env cfg"
  shows "outcome (main env cfg) =
           (case snd (epoch_loop env cfg (fst (open_output env cfg))
                        (fst (snd (open_output env cfg)))
                        (py_range (start_epoch cfg) (epochs (train cfg))) None) of
              Inl err \<Rightarrow> Inl err
            | Inr b \<Rightarrow> snd (extract_encoder (fst (open_output env cfg)) b))"
proof -
  obtain od lw t_out where oo: "open_output env cfg = (od, lw, t_out)"
    by (cases "open_output env cfg") auto
  from assms show ?thesis
    by (auto simp: main_def Let_def oo reaches_loop_def training_def load_model_def
          split: sum.splits prod.splits)
qed

text \<open>The trace of a run that stops before the loop.\<close>

lemma main_trace_early:
  assumes "\<not> reaches_loop env cfg"
  shows "trace (main env cfg) =
           [InitDistributedMode, ManualSeed (seed cfg + rank env), BuildDataset,
            GetDataloader (distributed (ddp cfg))]
           @ snd (snd (open_output env cfg))
           @ (if model_name cfg \<in> set (models env)
              then [BuildModel (model_name cfg), ModelToDevice (device cfg)]
                   @ (if eff_batch_size env cfg \<noteq> 0
                      then (if distributed (ddp cfg) then [WrapDistributed (gpu (ddp cfg))] else [])
                           @ [GetOptimizer (lr (train (derive_lr env cfg))), NewLossScaler]
                      else [])
              else [])"
proof -
  obtain od lw t_out where oo: "open_output env cfg = (od, lw, t_out)"
    by (cases "open_output env cfg") auto
  from assms show ?thesis
    by (auto simp: main_def Let_def oo reaches_loop_def training_def load_model_def)
qed

lemma main_outcome_early:
  assumes "\<not> reaches_loop env cfg"
  shows "isl (outcome (main env cfg))"
proof -
  obtain od lw t_out where oo: "open_output env cfg = (od, lw, t_out)"
    by (cases "open_output env cfg") auto
  from assms show ?thesis
    by (auto simp: main_def Let_def oo reaches_loop_def training_def load_model_def)
qed

lemma open_output_trace_reads [simp]:
  "checkpoints (snd (snd (open_output env cfg))) = []"
  "encoder_saves (snd (snd (open_output env cfg))) = []"
  "log_lines (snd (snd (open_output env cfg))) = []"
  "executed (snd (snd (open_output env cfg))) = []"
  "sink_events (snd (snd (open_output env cfg))) = []"
  by (simp_all add: open_output_def Let_def event_readers)

lemma extract_encoder_reads [simp]:
  "checkpoints (fst (extract_encoder od b)) = []"
  "log_lines (fst (extract_encoder od b)) = []"
  "executed (fst (extract_encoder od b)) = []"
  "sink_events (fst (extract_encoder od b)) = []"
  by (simp_all add: extract_encoder_def event_readers split: option.splits)

lemma main_reads:
  assumes "reaches_loop env cfg"
  shows "checkpoints (trace (main env cfg)) =
           checkpoints (fst (epoch_loop env cfg (fst (open_output env cfg))
             (fst (snd (open_output env cfg)))
             (py_range (start_epoch cfg) (epochs (train cfg))) None))"
    and "log_lines (trace (main env cfg)) =
           log_lines (fst (epoch_loop env cfg (fst (open_output env cfg))
             (fst (snd (open_output env cfg)))
             (py_range (start_epoch cfg) (epochs (train cfg))) None))"
    and "executed (trace (main env cfg)) =
           executed (fst (epoch_loop env cfg (fst (open_output env cfg))
             (fst (snd (open_output env cfg)))
             (py_range (start_epoch cfg) (epochs (train cfg))) None))"
    and "sink_events (trace (main env cfg)) =
           sink_events (fst (epoch_loop env cfg (fst (open_output env cfg))
             (fst (snd (open_output env cfg)))
             (py_range (start_epoch cfg) (epochs (train cfg))) None))"
  by (simp_all add: main_trace [OF assms] event_readers split: sum.splits)

lemma completed_all:
  "\<forall>e\<in>set es. \<not> isl (train_one_epoch env e) \<Longrightarrow> completed env es = es"
  by (simp add: completed_def)

lemma concat_map_filter_singleton:
  "concat (map (\<lambda>x. if P x then [f x] else []) xs) = map f (filter P xs)"
  by (induction xs) simp_all

lemma checkpoints_save_checkpoint:
  "d \<noteq> [] \<Longrightarrow>
   checkpoints (save_checkpoint cfg (Some d) e) =
     (if e mod 20 = 0 \<or> e = epochs (train cfg) - 1
      then [(path_join d (''checkpoint-'' @ str_int e @ ''.pth''), e)] else [])"
  by (auto simp: save_checkpoint_def event_readers)

lemma py_range_empty: "b \<le> a \<Longrightarrow> py_range a b = []"
  by (simp add: py_range_def)

lemma py_range_Cons: "a < b \<Longrightarrow> py_range a b = a # py_range (a + 1) b"
  by (simp add: py_range_def upto_rec1)

lemma gated_simps [simp]:
  "\<not> gated InitDistributedMode" "\<not> gated (ManualSeed i)" "\<not> gated BuildDataset"
  "\<not> gated (GetDataloader c)" "gated (MakeDirs d)" "gated (OpenSummaryWriter d)"
  "\<not> gated (BuildModel m)" "\<not> gated (ModelToDevice m)" "\<not> gated (WrapDistributed i)"
  "\<not> gated (GetOptimizer x)" "\<not> gated NewLossScaler" "\<not> gated (LoadCheckpoint p i)"
  "\<not> gated (SamplerSetEpoch i)" "gated (TrainOneEpoch i w) = (w \<noteq> None)"
  "gated (SaveModel p i k)" "\<not> gated TakeEncoder" "gated (FlushWriter d)"
  "gated (AppendLine p r)"
  by (simp_all add: gated_def)

lemma epoch_loop_not_gated:
  "\<forall>ev\<in>set (fst (epoch_loop env cfg None None es b)). \<not> gated ev"
proof (induction es arbitrary: b)
  case Nil
  show ?case by simp
next
  case (Cons e es)
  show ?case
    by (cases "train_one_epoch env e")
       (auto simp: epoch_loop_Cons Cons.IH save_checkpoint_def write_log_def
          simp del: epoch_loop.simps(2))
qed

section \<open>Dicts and the record of an epoch\<close>

lemma dict_set_keys: "fst ` set (dict_set d k v) = insert k (fst ` set d)"
proof (induction d)
  case Nil
  show ?case by simp
next
  case (Cons kv d)
  obtain k' v' where kv: "kv = (k', v')" by (cases kv)
  show ?case
    by (simp add: kv Cons.IH insert_commute)
qed

lemma dict_set_distinct: "distinct (map fst d) \<Longrightarrow> distinct (map fst (dict_set d k v))"
  by (induction d) (auto simp: dict_set_keys)

lemma map_of_dict_set: "map_of (dict_set d k v) = (map_of d)(k \<mapsto> v)"
  by (induction d) auto

lemma dict_set_fresh: "k \<notin> fst ` set d \<Longrightarrow> dict_set d k v = d @ [(k, v)]"
  by (induction d) auto

lemma dict_of_items_keys: "fst ` set (dict_of_items d kvs) = fst ` set d \<union> fst ` set kvs"
proof (induction kvs arbitrary: d)
  case Nil
  show ?case by simp
next
  case (Cons kv kvs)
  obtain k v where kv: "kv = (k, v)" by (cases kv)
  show ?case
    by (simp add: kv Cons.IH dict_set_keys)
qed

lemma dict_of_items_distinct:
  "distinct (map fst d) \<Longrightarrow> distinct (map fst (dict_of_items d kvs))"
  by (induction kvs arbitrary: d) (auto simp: dict_set_distinct)

lemma dict_of_items_fresh:
  "distinct (map fst kvs) \<Longrightarrow> fst ` set d \<inter> fst ` set kvs = {} \<Longrightarrow>
   dict_of_items d kvs = d @ kvs"
proof (induction kvs arbitrary: d)
  case Nil
  show ?case by simp
next
  case (Cons kv kvs)
  obtain k v where kv: "kv = (k, v)" by (cases kv)
  from Cons.prems have fresh: "k \<notin> fst ` set d" and d: "distinct (map fst kvs)"
    and disj: "fst ` set (d @ [(k, v)]) \<inter> fst ` set kvs = {}"
    by (auto simp: kv)
  show ?case
    by (simp add: kv dict_set_fresh [OF fresh] Cons.IH [OF d disj])
qed

lemma train_keys:
  "fst ` set (map (\<lambda>(k, v). (''train_'' @ k, v)) s) = (\<lambda>k. ''train_'' @ k) ` fst ` set s"
  by force

lemma log_stats_keys:
  "fst ` set (log_stats s e) = insert ''epoch'' ((\<lambda>k. ''train_'' @ k) ` fst ` set s)"
  unfolding log_stats_def dict_set_keys dict_of_items_keys train_keys by simp

lemma log_stats_distinct: "distinct (map fst (log_stats s e))"
  by (simp add: log_stats_def dict_set_distinct dict_of_items_distinct)

lemma log_stats_epoch: "map_of (log_stats s e) ''epoch'' = Some (PInt e)"
  by (simp add: log_stats_def map_of_dict_set)

lemma log_stats_dict:
  assumes "distinct (map fst s)"
  shows "log_stats s e = map (\<lambda>(k, v). (''train_'' @ k, v)) s @ [(''epoch'', PInt e)]"
proof -
  have m: "map fst (map (\<lambda>(k, v). (''train_'' @ k, v)) s) = map (\<lambda>k. ''train_'' @ k) (map fst s)"
    by (induction s) auto
  have d: "distinct (map fst (map (\<lambda>(k, v). (''train_'' @ k, v)) s))"
    unfolding m using assms by (simp add: distinct_map inj_on_def)
  have i: "dict_of_items [] (map (\<lambda>(k, v). (''train_'' @ k, v)) s)
             = map (\<lambda>(k, v). (''train_'' @ k, v)) s"
    using dict_of_items_fresh [OF d, of "[]"] by simp
  have f: "''epoch'' \<notin> fst ` set (map (\<lambda>(k, v). (''train_'' @ k, v)) s)"
    unfolding train_keys by auto
  show ?thesis
    unfolding log_stats_def i by (rule dict_set_fresh [OF f])
qed

lemma log_lines_write_log:
  "d \<noteq> [] \<Longrightarrow> is_main_process env \<Longrightarrow>
   log_lines (write_log env (Some d) lw r) = [(path_join d ''log.txt'', r)]"
  by (simp add: write_log_def event_readers split: option.splits)

lemma sink_events_write_log:
  "d \<noteq> [] \<Longrightarrow> is_main_process env \<Longrightarrow>
   sink_events (write_log env (Some d) (Some w) r) = [Flushed w, Logged r]"
  by (simp add: write_log_def event_readers)

lemma sink_events_write_log_None: "sink_events (write_log env None lw r) = []"
  by (simp add: write_log_def)

lemma flush_then_log_pairs:
  "flush_then_log (concat (map (\<lambda>e. [Flushed w, Logged (f e)]) es))"
  by (induction es) simp_all

lemma sink_events_take:
  "sink_events (take k t) = take (length (sink_events (take k t))) (sink_events t)"
proof -
  have "sink_events t = sink_events (take k t) @ sink_events (drop k t)"
    by (simp flip: projections_append)
  then show ?thesis by simp
qed

lemma log_not_ahead_take: "flush_then_log s \<Longrightarrow> log_not_ahead (take j s)"
proof (induction s arbitrary: j rule: flush_then_log.induct)
  case 1
  show ?case by simp
next
  case (2 w r t)
  show ?case
  proof (cases j)
    case 0
    then show ?thesis by simp
  next
    case (Suc i)
    show ?thesis
    proof (cases i)
      case 0
      with Suc show ?thesis by simp
    next
      case (Suc h)
      with \<open>j = Suc i\<close> 2 show ?thesis by simp
    qed
  qed
qed simp_all

section \<open>Learning-rate derivation\<close>

text \<open>
  Claim C1. When \<^verbatim>\<open>main\<close> gets past the model lookup, a learning rate that was unset
  is \<open>blr * (batch_size * accum_iter * world_size) / 256\<close> afterwards, so that doubling
  the batch size, the accumulation factor or the world size doubles it; a learning rate
  that was set keeps its value whatever the three factors are.
\<close>

theorem lr_derivation:
  assumes "model_name cfg \<in> set (models env)"
  shows "(lr (train cfg) = None \<longrightarrow>
            derived_lr env cfg =
              Some (blr (train cfg)
                    * of_int (batch_size (dataloader cfg) * accum_iter (train cfg) * world_size env)
                    / 256) \<and>
            derived_lr env (double_batch_size cfg) = map_option ((*) 2) (derived_lr env cfg) \<and>
            derived_lr env (double_accum_iter cfg) = map_option ((*) 2) (derived_lr env cfg) \<and>
            derived_lr (double_world_size env) cfg = map_option ((*) 2) (derived_lr env cfg)) \<and>
         (\<forall>v. lr (train cfg) = Some v \<longrightarrow> derived_lr env cfg = Some v)"
proof -
  have a: "model_name (double_batch_size cfg) \<in> set (models env)"
    using assms by (simp add: double_batch_size_def)
  have b: "model_name (double_accum_iter cfg) \<in> set (models env)"
    using assms by (simp add: double_accum_iter_def)
  have c: "model_name cfg \<in> set (models (double_world_size env))"
    using assms by (simp add: double_world_size_def)
  have a': "eff_batch_size env (double_batch_size cfg) = 2 * eff_batch_size env cfg"
    and b': "eff_batch_size env (double_accum_iter cfg) = 2 * eff_batch_size env cfg"
    and c': "eff_batch_size (double_world_size env) cfg = 2 * eff_batch_size env cfg"
    by (simp_all add: eff_batch_size_def double_batch_size_def double_accum_iter_def
          double_world_size_def)
  have a'': "lr (train (double_batch_size cfg)) = lr (train cfg)"
      "blr (train (double_batch_size cfg)) = blr (train cfg)"
    and b'': "lr (train (double_accum_iter cfg)) = lr (train cfg)"
      "blr (train (double_accum_iter cfg)) = blr (train cfg)"
    by (simp_all add: double_batch_size_def double_accum_iter_def)
  show ?thesis
    by (simp add: derived_lr_eq [OF assms] derived_lr_eq [OF a] derived_lr_eq [OF b]
          derived_lr_eq [OF c] a' b' c' a'' b'')
       (simp add: eff_batch_size_def)
qed

theorem lr_derivation_witness:
  "model_name (toy_config ''st_mem_vit_base'' '''' 0 2) \<in> set (models (toy_env 0)) \<and>
   derived_lr (toy_env 0) (toy_config ''st_mem_vit_base'' '''' 0 2) = Some (3 / 2000) \<and>
   derived_lr (toy_env 0) (double_batch_size (toy_config ''st_mem_vit_base'' '''' 0 2))
     = Some (3 / 1000) \<and>
   derived_lr (toy_env 0)
     ((toy_config ''st_mem_vit_base'' '''' 0 2)
        \<lparr>train := (train (toy_config ''st_mem_vit_base'' '''' 0 2))\<lparr>lr := Some (1 / 10)\<rparr>\<rparr>)
     = Some (1 / 10)"
  using lr_derivation [of "toy_config ''st_mem_vit_base'' '''' 0 2" "toy_env 0"]
    lr_derivation [of "(toy_config ''st_mem_vit_base'' '''' 0 2)
        \<lparr>train := (train (toy_config ''st_mem_vit_base'' '''' 0 2))\<lparr>lr := Some (1 / 10)\<rparr>\<rparr>"
      "toy_env 0"]
  by (simp add: toy_config_def toy_env_def)

section \<open>Checkpointing cadence\<close>

text \<open>
  Claim C2. On the main process with an output directory, a run from epoch 0 over \<open>n\<close>
  epochs whose executor raises at none of them saves the full checkpoints
  \<^verbatim>\<open>checkpoint-<e>.pth\<close> for exactly the epochs \<open>e\<close> of \<open>0, \<dots>, n - 1\<close> with
  \<open>e mod 20 = 0\<close> or \<open>e = n - 1\<close>, in that order, each once and under the output
  directory. The toy run of 45 epochs saves at 0, 20, 40 and 44.
\<close>

theorem checkpoint_cadence:
  assumes "is_main_process env" and "output_dir cfg \<noteq> []" and "reaches_loop env cfg"
    and "start_epoch cfg = 0" and "epochs (train cfg) = n"
    and "\<forall>e\<in>set [0..n - 1]. \<not> isl (train_one_epoch env e)"
  shows "checkpoints (trace (main env cfg)) =
           map (\<lambda>e. (path_join (path_join (output_dir cfg) (exp_name cfg))
                        (''checkpoint-'' @ str_int e @ ''.pth''), e))
             (filter (\<lambda>e. e mod 20 = 0 \<or> e = n - 1) [0..n - 1])"
proof -
  let ?d = "path_join (output_dir cfg) (exp_name cfg)"
  have d: "?d \<noteq> []"
    using assms(2) by (rule path_join_nonempty)
  have all: "completed env (py_range (start_epoch cfg) (epochs (train cfg))) = [0..n - 1]"
    using assms(4-6) by (simp add: py_range_def completed_all)
  have "checkpoints (trace (main env cfg)) =
          concat (map (\<lambda>e. checkpoints (save_checkpoint cfg (Some ?d) e)) [0..n - 1])"
    by (simp add: main_reads(1) [OF assms(3)] open_output_main [OF assms(1,2)]
          checkpoints_epoch_loop all)
  also have "\<dots> = concat (map (\<lambda>e. if e mod 20 = 0 \<or> e = n - 1
         then [(path_join ?d (''checkpoint-'' @ str_int e @ ''.pth''), e)] else []) [0..n - 1])"
    by (simp add: checkpoints_save_checkpoint [OF d] assms(5))
  finally show ?thesis
    by (simp add: concat_map_filter_singleton)
qed

theorem checkpoint_cadence_witness:
  "is_main_process (toy_env 0) \<and>
   output_dir (toy_config ''st_mem_vit_base'' '''' 0 45) \<noteq> [] \<and>
   reaches_loop (toy_env 0) (toy_config ''st_mem_vit_base'' '''' 0 45) \<and>
   checkpoints (trace (main (toy_env 0) (toy_config ''st_mem_vit_base'' '''' 0 45))) =
     [(''out/exp/checkpoint-0.pth'', 0), (''out/exp/checkpoint-20.pth'', 20),
      (''out/exp/checkpoint-40.pth'', 40), (''out/exp/checkpoint-44.pth'', 44)]"
  using checkpoint_cadence [of "toy_env 0" "toy_config ''st_mem_vit_base'' '''' 0 45" 45]
  by (simp add: toy_config_def toy_env_def toy_epoch_def reaches_loop_def eff_batch_size_def
        path_join_def str_int_def str_nat_numeral str_nat_0 upto.simps)

section \<open>Main-process gating\<close>

text \<open>
  Claim C3. On a process that is not the main one the locals \<^verbatim>\<open>output_dir\<close> and
  \<^verbatim>\<open>log_writer\<close> are \<open>None\<close> and nothing is created; the run, however it ends, saves
  no snapshot, appends no line to \<^verbatim>\<open>log.txt\<close>, flushes no monitoring stream and hands
  the epoch executor no summary writer. So a run that does any of these is on the main
  process.
\<close>

theorem main_process_gating:
  assumes "\<not> is_main_process env"
  shows "open_output env cfg = (None, None, []) \<and> filter gated (trace (main env cfg)) = []"
proof -
  have oo: "open_output env cfg = (None, None, [])"
    using assms by (simp add: open_output_other)
  have "\<forall>ev\<in>set (trace (main env cfg)). \<not> gated ev"
  proof (cases "reaches_loop env cfg")
    case True
    show ?thesis
      using epoch_loop_not_gated [of env cfg "py_range (start_epoch cfg) (epochs (train cfg))" None]
      by (auto simp: main_trace [OF True] oo extract_encoder_def split: sum.splits)
  next
    case False
    show ?thesis
      by (auto simp: main_trace_early [OF False] oo)
  qed
  with oo show ?thesis by (simp add: filter_empty_conv)
qed

theorem main_process_gating_witness:
  "\<not> is_main_process (toy_env 1) \<and> \<not> is_main_process (toy_env 2) \<and>
   filter gated (trace (main (toy_env 1) (toy_config ''st_mem_vit_base'' '''' 0 45))) = [] \<and>
   filter gated (trace (main (toy_env 2) (toy_config ''st_mem_vit_base'' '''' 0 45))) = []"
  using main_process_gating [of "toy_env 1" "toy_config ''st_mem_vit_base'' '''' 0 45"]
    main_process_gating [of "toy_env 2" "toy_config ''st_mem_vit_base'' '''' 0 45"]
  by (simp add: toy_env_def)

section \<open>An unknown model name\<close>

text \<open>
  Claim C4, as amended. With a model name that \<^verbatim>\<open>models\<close> does not bind, \<^verbatim>\<open>main\<close>
  raises the \<^verbatim>\<open>ValueError\<close> before the model, the optimizer and the loss scaler exist
  and before a checkpoint is read or an epoch runs. The dataset and the dataloader are
  built by then, and on the main process with an output directory so are the directory
  and the summary writer.
\<close>

theorem unsupported_model_raises:
  assumes "model_name cfg \<notin> set (models env)"
  shows "outcome (main env cfg) = Inl (ValueError (''Unsupported model name: '' @ model_name cfg)) \<and>
         trace (main env cfg) =
           [InitDistributedMode, ManualSeed (seed cfg + rank env), BuildDataset,
            GetDataloader (distributed (ddp cfg))]
           @ (if is_main_process env \<and> output_dir cfg \<noteq> []
              then [MakeDirs (path_join (output_dir cfg) (exp_name cfg)),
                    OpenSummaryWriter (path_join (output_dir cfg) (exp_name cfg))]
              else []) \<and>
         final_config (main env cfg) = cfg"
  by (simp add: main_unsupported [OF assms] open_output_def Let_def)

theorem unsupported_model_raises_witness:
  "model_name (toy_config ''resnet50'' '''' 0 2) \<notin> set (models (toy_env 1)) \<and>
   outcome (main (toy_env 1) (toy_config ''resnet50'' '''' 0 2))
     = Inl (ValueError ''Unsupported model name: resnet50'') \<and>
   trace (main (toy_env 1) (toy_config ''resnet50'' '''' 0 2))
     = [InitDistributedMode, ManualSeed 1, BuildDataset, GetDataloader True]"
  using unsupported_model_raises [of "toy_config ''resnet50'' '''' 0 2" "toy_env 1"]
  by (simp add: toy_config_def toy_env_def)

text \<open>
  Claim C4 as stated fails: on the main process of the toy run the dataset, the
  dataloader, the output directory and the summary writer all precede the error.
\<close>

theorem fail_fast_counterexample:
  "outcome (main (toy_env 0) (toy_config ''resnet50'' '''' 0 2))
     = Inl (ValueError ''Unsupported model name: resnet50'') \<and>
   trace (main (toy_env 0) (toy_config ''resnet50'' '''' 0 2))
     = [InitDistributedMode, ManualSeed 0, BuildDataset, GetDataloader True,
        MakeDirs ''out/exp'', OpenSummaryWriter ''out/exp'']"
  by (simp add: main_def open_output_def path_join_def toy_config_def toy_env_def Let_def)

section \<open>\<^verbatim>\<open>parse\<close>: the falsy-skip merge\<close>

lemma merge_args_lookup:
  "distinct (map fst kvs) \<Longrightarrow>
   merge_args kvs config k =
     (case map_of kvs k of
        None \<Rightarrow> config k
      | Some v \<Rightarrow> if truthy v then Some v else config k)"
proof (induction kvs arbitrary: config)
  case Nil
  show ?case by simp
next
  case (Cons kv kvs)
  obtain k' v' where kv: "kv = (k', v')" by (cases kv)
  from Cons.prems have d: "distinct (map fst kvs)" and n: "k' \<notin> fst ` set kvs"
    by (simp_all add: kv)
  from n have m: "map_of kvs k' = None"
    by (simp add: map_of_eq_None_iff)
  show ?case
    by (simp add: kv Cons.IH [OF d] m split: option.splits)
qed

lemma distinct_parse_args: "distinct (map fst (parse_args cl))"
  by (simp add: parse_args_def)

text \<open>
  Claim C5. For each of the five options, the merged configuration holds the option's
  value if that value is truthy and the configuration file's entry otherwise; keys that
  are no option keep the file's entry. With \<^verbatim>\<open>start_epoch: 5\<close> in the file, the
  option left out or given as 0 leaves 5 in effect, and the option given as 10 puts 10
  in effect.
\<close>

theorem falsy_skip_merge:
  "(\<forall>(k, v) \<in> set (parse_args cl).
      parse cl file_config k = (if truthy v then Some v else file_config k)) \<and>
   (k \<notin> fst ` set (parse_args cl) \<longrightarrow> parse cl file_config k = file_config k) \<and>
   (file_config ''start_epoch'' = Some (PInt 5) \<and>
    (opt_start_epoch cl = None \<or> opt_start_epoch cl = Some 0) \<longrightarrow>
      parse cl file_config ''start_epoch'' = Some (PInt 5)) \<and>
   (opt_start_epoch cl = Some 10 \<longrightarrow> parse cl file_config ''start_epoch'' = Some (PInt 10))"
proof -
  have look: "parse cl file_config k =
     (case map_of (parse_args cl) k of
        None \<Rightarrow> file_config k
      | Some v \<Rightarrow> if truthy v then Some v else file_config k)" for k
    unfolding parse_def by (rule merge_args_lookup [OF distinct_parse_args])
  have "parse cl file_config k = (if truthy v then Some v else file_config k)"
    if "(k, v) \<in> set (parse_args cl)" for k v
    using that distinct_parse_args [of cl] by (simp add: look)
  moreover have "parse cl file_config k = file_config k" if "k \<notin> fst ` set (parse_args cl)"
    using that by (simp add: look map_of_eq_None_iff [THEN iffD2])
  moreover have "parse cl file_config ''start_epoch'' =
      (case opt_start_epoch cl of
         None \<Rightarrow> file_config ''start_epoch''
       | Some n \<Rightarrow> if n \<noteq> 0 then Some (PInt n) else file_config ''start_epoch'')"
    by (simp add: look parse_args_def split: option.splits)
  ultimately show ?thesis
    by (auto split: option.splits)
qed

theorem falsy_skip_merge_witness:
  "parse (toy_cmdline None) toy_file ''start_epoch'' = Some (PInt 5) \<and>
   parse (toy_cmdline (Some 0)) toy_file ''start_epoch'' = Some (PInt 5) \<and>
   parse (toy_cmdline (Some 10)) toy_file ''start_epoch'' = Some (PInt 10) \<and>
   parse (toy_cmdline (Some 0)) toy_file ''exp_name'' = Some (PStr ''exp'') \<and>
   parse (toy_cmdline (Some 0)) toy_file ''output_dir'' = Some (PStr ''out'') \<and>
   parse (toy_cmdline (Some 0)) toy_file ''seed'' = Some (PInt 0)"
  using falsy_skip_merge [of "toy_cmdline None" toy_file "''seed''"]
    falsy_skip_merge [of "toy_cmdline (Some 0)" toy_file "''seed''"]
    falsy_skip_merge [of "toy_cmdline (Some 10)" toy_file "''seed''"]
  by (simp add: toy_cmdline_def toy_file_def parse_args_def)

section \<open>Resumption\<close>

text \<open>
  Claim C6. Once the checkpoint load step is done, the epochs handed to the executor
  are an initial stretch of \<^verbatim>\<open>range(config['start_epoch'], config['train']['epochs'])\<close>;
  if that range is not empty the first epoch run is the configuration's
  \<^verbatim>\<open>start_epoch\<close>, whatever epoch the loaded checkpoint stores. This rests on
  \<open>load_model\<close> as the specification describes it.
\<close>

theorem resume_keeps_start_epoch:
  assumes "reaches_loop env cfg"
  shows "executed (trace (main env cfg)) =
           take (Suc (length (completed env (py_range (start_epoch cfg) (epochs (train cfg))))))
             (py_range (start_epoch cfg) (epochs (train cfg))) \<and>
         (start_epoch cfg < epochs (train cfg) \<longrightarrow>
            executed (trace (main env cfg)) \<noteq> [] \<and>
            hd (executed (trace (main env cfg))) = start_epoch cfg)"
proof -
  have ex: "executed (trace (main env cfg)) =
           take (Suc (length (completed env (py_range (start_epoch cfg) (epochs (train cfg))))))
             (py_range (start_epoch cfg) (epochs (train cfg)))"
    by (simp add: main_reads(3) [OF assms] executed_epoch_loop)
  show ?thesis
    by (simp add: ex py_range_Cons)
qed

theorem resume_keeps_start_epoch_witness:
  "reaches_loop (toy_env 0) (toy_config ''st_mem_vit_base'' ''out/exp/checkpoint-20.pth'' 3 5) \<and>
   LoadCheckpoint ''out/exp/checkpoint-20.pth'' 20
     \<in> set (trace (main (toy_env 0)
               (toy_config ''st_mem_vit_base'' ''out/exp/checkpoint-20.pth'' 3 5))) \<and>
   executed (trace (main (toy_env 0)
               (toy_config ''st_mem_vit_base'' ''out/exp/checkpoint-20.pth'' 3 5))) = [3, 4]"
proof -
  have r: "reaches_loop (toy_env 0) (toy_config ''st_mem_vit_base'' ''out/exp/checkpoint-20.pth'' 3 5)"
    by (simp add: reaches_loop_def toy_env_def toy_config_def eff_batch_size_def)
  have l: "LoadCheckpoint ''out/exp/checkpoint-20.pth'' 20
     \<in> set (trace (main (toy_env 0)
               (toy_config ''st_mem_vit_base'' ''out/exp/checkpoint-20.pth'' 3 5)))"
    by (simp add: main_trace [OF r]) (simp add: toy_env_def toy_config_def)
  show ?thesis
    using resume_keeps_start_epoch [OF r] r l
    by (simp add: toy_env_def toy_config_def toy_epoch_def completed_def py_range_def upto.simps)
qed

section \<open>The empty epoch loop\<close>

text \<open>
  Claim C7. On the main process with an output directory, a run with
  \<^verbatim>\<open>start_epoch >= epochs\<close> executes no epoch, saves no encoder artifact and ends in
  an exception; if it reaches the loop, the exception is the \<^verbatim>\<open>UnboundLocalError\<close> for
  \<^verbatim>\<open>epoch\<close> of the encoder-saving step.
\<close>

theorem empty_loop_unbound_epoch:
  assumes "is_main_process env" and "output_dir cfg \<noteq> []"
    and "epochs (train cfg) \<le> start_epoch cfg"
  shows "(reaches_loop env cfg \<longrightarrow> outcome (main env cfg) = Inl (UnboundLocalError ''epoch'')) \<and>
         isl (outcome (main env cfg)) \<and>
         executed (trace (main env cfg)) = [] \<and>
         encoder_saves (trace (main env cfg)) = []"
proof (cases "reaches_loop env cfg")
  case True
  have d: "path_join (output_dir cfg) (exp_name cfg) \<noteq> []"
    using assms(2) by (rule path_join_nonempty)
  have e: "py_range (start_epoch cfg) (epochs (train cfg)) = []"
    using assms(3) by (rule py_range_empty)
  show ?thesis
    using d
    by (simp add: main_outcome [OF True] main_trace [OF True] e
          open_output_main [OF assms(1,2)] extract_encoder_def event_readers)
next
  case False
  then show ?thesis
    by (simp add: main_outcome_early main_trace_early event_readers)
qed

theorem empty_loop_unbound_epoch_witness:
  "is_main_process (toy_env 0) \<and>
   output_dir (toy_config ''st_mem_vit_base'' '''' 45 45) \<noteq> [] \<and>
   reaches_loop (toy_env 0) (toy_config ''st_mem_vit_base'' '''' 45 45) \<and>
   outcome (main (toy_env 0) (toy_config ''st_mem_vit_base'' '''' 45 45))
     = Inl (UnboundLocalError ''epoch'') \<and>
   encoder_saves (trace (main (toy_env 0) (toy_config ''st_mem_vit_base'' '''' 45 45))) = []"
  using empty_loop_unbound_epoch [of "toy_env 0" "toy_config ''st_mem_vit_base'' '''' 45 45"]
  by (simp add: toy_env_def toy_config_def reaches_loop_def eff_batch_size_def)

section \<open>The log record\<close>

text \<open>
  Claim C8. On the process that writes the log (the main one, with an output
  directory), a run that reaches the loop appends to \<^verbatim>\<open>log.txt\<close> one record for each
  epoch the executor completes, in order, and nothing else. The record of epoch \<open>e\<close>
  with statistics \<open>s\<close> has as keys \<^verbatim>\<open>'train_' + k\<close> for the keys \<open>k\<close> of \<open>s\<close> and
  \<^verbatim>\<open>'epoch'\<close>, each once, with \<^verbatim>\<open>'epoch'\<close> mapped to \<open>e\<close>; for statistics with
  distinct keys it is the prefixed statistics followed by the epoch. A run over the
  epochs \<open>0, \<dots>, n - 1\<close> that completes them all appends \<open>n\<close> records whose
  \<^verbatim>\<open>'epoch'\<close> values are \<open>0, \<dots>, n - 1\<close> in order. A record stands for the line
  \<^verbatim>\<open>json.dumps(log_stats) + '\n'\<close>.
\<close>

theorem log_record_shape:
  assumes "is_main_process env" and "output_dir cfg \<noteq> []" and "reaches_loop env cfg"
  shows "log_lines (trace (main env cfg)) =
           map (\<lambda>e. (path_join (path_join (output_dir cfg) (exp_name cfg)) ''log.txt'',
                      log_stats (projr (train_one_epoch env e)) e))
             (completed env (py_range (start_epoch cfg) (epochs (train cfg)))) \<and>
         fst ` set (log_stats s e) = insert ''epoch'' ((\<lambda>k. ''train_'' @ k) ` fst ` set s) \<and>
         distinct (map fst (log_stats s e)) \<and>
         map_of (log_stats s e) ''epoch'' = Some (PInt e) \<and>
         (distinct (map fst s) \<longrightarrow>
            log_stats s e = map (\<lambda>(k, v). (''train_'' @ k, v)) s @ [(''epoch'', PInt e)]) \<and>
         (start_epoch cfg = 0 \<and> epochs (train cfg) = n \<and>
          (\<forall>e\<in>set [0..n - 1]. \<not> isl (train_one_epoch env e)) \<longrightarrow>
            map (\<lambda>(p, r). map_of r ''epoch'') (log_lines (trace (main env cfg)))
              = map (\<lambda>e. Some (PInt e)) [0..n - 1])"
proof -
  let ?d = "path_join (output_dir cfg) (exp_name cfg)"
  have d: "?d \<noteq> []"
    using assms(2) by (rule path_join_nonempty)
  have lines: "log_lines (trace (main env cfg)) =
           map (\<lambda>e. (path_join ?d ''log.txt'', log_stats (projr (train_one_epoch env e)) e))
             (completed env (py_range (start_epoch cfg) (epochs (train cfg))))"
    by (simp add: main_reads(2) [OF assms(3)] open_output_main [OF assms(1,2)]
          log_lines_epoch_loop log_lines_write_log [OF d assms(1)])
  have run: "map (\<lambda>(p, r). map_of r ''epoch'') (log_lines (trace (main env cfg)))
              = map (\<lambda>e. Some (PInt e)) [0..n - 1]"
    if "start_epoch cfg = 0" "epochs (train cfg) = n"
      "\<forall>e\<in>set [0..n - 1]. \<not> isl (train_one_epoch env e)"
  proof -
    have "completed env (py_range (start_epoch cfg) (epochs (train cfg))) = [0..n - 1]"
      using that by (simp add: py_range_def completed_all)
    then show ?thesis
      by (simp add: lines log_stats_epoch comp_def)
  qed
  from lines run show ?thesis
    by (simp add: log_stats_keys log_stats_distinct log_stats_epoch log_stats_dict)
qed

theorem log_record_shape_witness:
  "is_main_process (toy_env 0) \<and>
   output_dir (toy_config ''st_mem_vit_base'' '''' 0 2) \<noteq> [] \<and>
   reaches_loop (toy_env 0) (toy_config ''st_mem_vit_base'' '''' 0 2) \<and>
   log_lines (trace (main (toy_env 0) (toy_config ''st_mem_vit_base'' '''' 0 2))) =
     [(''out/exp/log.txt'',
       [(''train_loss'', PFloat 1), (''train_lr'', PFloat (1 / 1000)), (''epoch'', PInt 0)]),
      (''out/exp/log.txt'',
       [(''train_loss'', PFloat (1 / 2)), (''train_lr'', PFloat (1 / 1000)), (''epoch'', PInt 1)])]"
  using log_record_shape [of "toy_env 0" "toy_config ''st_mem_vit_base'' '''' 0 2"
      "[(''loss'', PFloat 1), (''lr'', PFloat (1 / 1000))]" 0 2]
  by (simp add: toy_env_def toy_config_def toy_epoch_def reaches_loop_def eff_batch_size_def
        path_join_def py_range_def completed_def upto.simps log_stats_def)

section \<open>Flush before log\<close>

text \<open>
  Claim C9, as amended. In every run that \<^verbatim>\<open>main\<close> carries to its end, with a result
  or an exception of its own or of the epoch executor, the traffic of the metric sink
  is a sequence of pairs: a flush of the monitoring stream and, directly after it, a
  line of the log. On the process that writes, a run that reaches the loop has one such
  pair for each completed epoch, in order: the stream is flushed once in the epoch,
  before that epoch's line. In an execution stopped at any point the log is never ahead
  of the stream: every line has its flush directly before it, and at most the last
  flush is without its line.
\<close>

theorem flush_before_log:
  "flush_then_log (sink_events (trace (main env cfg))) \<and>
   (is_main_process env \<and> output_dir cfg \<noteq> [] \<and> reaches_loop env cfg \<longrightarrow>
      sink_events (trace (main env cfg)) =
        concat (map (\<lambda>e. [Flushed (path_join (output_dir cfg) (exp_name cfg)),
                         Logged (log_stats (projr (train_one_epoch env e)) e)])
          (completed env (py_range (start_epoch cfg) (epochs (train cfg)))))) \<and>
   log_not_ahead (sink_events (stopped_after k (main env cfg)))"
proof -
  let ?d = "path_join (output_dir cfg) (exp_name cfg)"
  let ?es = "completed env (py_range (start_epoch cfg) (epochs (train cfg)))"
  let ?pairs = "concat (map (\<lambda>e. [Flushed ?d, Logged (log_stats (projr (train_one_epoch env e)) e)]) ?es)"
  have writer: "sink_events (trace (main env cfg)) = ?pairs"
    if "is_main_process env" "output_dir cfg \<noteq> []" "reaches_loop env cfg"
  proof -
    have d: "?d \<noteq> []"
      using that(2) by (rule path_join_nonempty)
    show ?thesis
      by (simp add: main_reads(4) [OF that(3)] open_output_main [OF that(1,2)]
            sink_events_epoch_loop sink_events_write_log [OF d that(1)])
  qed
  have silent: "sink_events (trace (main env cfg)) = []"
    if "\<not> (is_main_process env \<and> output_dir cfg \<noteq> [] \<and> reaches_loop env cfg)"
  proof (cases "reaches_loop env cfg")
    case True
    with that have "open_output env cfg = (None, None, [])"
      by (simp add: open_output_other)
    then show ?thesis
      by (simp add: main_reads(4) [OF True] sink_events_epoch_loop sink_events_write_log_None)
  next
    case False
    show ?thesis
      by (simp add: main_trace_early [OF False] event_readers)
  qed
  have whole: "flush_then_log (sink_events (trace (main env cfg)))"
  proof (cases "is_main_process env \<and> output_dir cfg \<noteq> [] \<and> reaches_loop env cfg")
    case True
    then show ?thesis
      by (simp add: writer flush_then_log_pairs)
  next
    case False
    then show ?thesis
      by (simp add: silent)
  qed
  have "log_not_ahead (sink_events (stopped_after k (main env cfg)))"
    unfolding stopped_after_def
    by (subst sink_events_take) (rule log_not_ahead_take [OF whole])
  with whole writer show ?thesis by simp
qed

theorem flush_before_log_witness:
  "sink_events (trace (main (toy_env 0) (toy_config ''st_mem_vit_base'' '''' 0 2))) =
     [Flushed ''out/exp'',
      Logged [(''train_loss'', PFloat 1), (''train_lr'', PFloat (1 / 1000)), (''epoch'', PInt 0)],
      Flushed ''out/exp'',
      Logged [(''train_loss'', PFloat (1 / 2)), (''train_lr'', PFloat (1 / 1000)),
              (''epoch'', PInt 1)]] \<and>
   log_not_ahead
     (sink_events (stopped_after 15 (main (toy_env 0) (toy_config ''st_mem_vit_base'' '''' 0 2))))"
  using flush_before_log [of "toy_env 0" "toy_config ''st_mem_vit_base'' '''' 0 2" 15]
  by (simp add: toy_env_def toy_config_def toy_epoch_def reaches_loop_def eff_batch_size_def
        path_join_def py_range_def completed_def upto.simps log_stats_def)

text \<open>
  Claim C9 as stated fails in its last clause. In the toy run on the main process, the
  fifteenth event is the flush of epoch 0; an execution stopped there (the \<^verbatim>\<open>open\<close> of
  line 212 raising, say) has flushed the monitoring stream and written the checkpoint
  of epoch 0, and \<^verbatim>\<open>log.txt\<close> has no line: the stream is ahead of the log.
\<close>

theorem stream_ahead_counterexample:
  "sink_events (stopped_after 15 (main (toy_env 0) (toy_config ''st_mem_vit_base'' '''' 0 2)))
     = [Flushed ''out/exp''] \<and>
   log_lines (stopped_after 15 (main (toy_env 0) (toy_config ''st_mem_vit_base'' '''' 0 2))) = [] \<and>
   checkpoints (stopped_after 15 (main (toy_env 0) (toy_config ''st_mem_vit_base'' '''' 0 2)))
     = [(''out/exp/checkpoint-0.pth'', 0)] \<and>
   \<not> flush_then_log
       (sink_events (stopped_after 15 (main (toy_env 0) (toy_config ''st_mem_vit_base'' '''' 0 2))))"
proof -
  have r: "reaches_loop (toy_env 0) (toy_config ''st_mem_vit_base'' '''' 0 2)"
    by (simp add: reaches_loop_def toy_env_def toy_config_def eff_batch_size_def)
  show ?thesis
    unfolding stopped_after_def main_trace [OF r]
    by (simp add: toy_env_def toy_config_def toy_epoch_def open_output_def Let_def path_join_def
          py_range_def upto.simps epoch_body_def save_checkpoint_def write_log_def event_readers
          str_int_def str_nat_0 derive_lr_def eff_batch_size_def)
qed

section \<open>The one write to the configuration\<close>

text \<open>
  Claim C10. \<^verbatim>\<open>main\<close> hands back the configuration it was given, but for
  \<^verbatim>\<open>config['train']['lr']\<close>, which it writes only where it was \<open>None\<close> (and the
  model name was known, so that line 151 is reached). The collaborators that are passed
  the configuration are taken not to write to it.
\<close>

theorem single_config_mutation:
  "final_config (main env cfg) =
     (if model_name cfg \<in> set (models env) \<and> lr (train cfg) = None
      then cfg\<lparr>train := (train cfg)\<lparr>lr :=
             Some (blr (train cfg) * of_int (eff_batch_size env cfg) / 256)\<rparr>\<rparr>
      else cfg)"
  by (simp add: main_final_config derive_lr_def split: option.splits)

theorem single_config_mutation_witness:
  "final_config (main (toy_env 0) (toy_config ''st_mem_vit_base'' '''' 0 2)) =
     (toy_config ''st_mem_vit_base'' '''' 0 2)
       \<lparr>train := (train (toy_config ''st_mem_vit_base'' '''' 0 2))\<lparr>lr := Some (3 / 2000)\<rparr>\<rparr>"
  using single_config_mutation [of "toy_env 0" "toy_config ''st_mem_vit_base'' '''' 0 2"]
  by (simp add: toy_config_def toy_env_def eff_batch_size_def)

end
